theory Spec2Isabelle
  imports Complex_Main "HOL-Library.Word" "HOL-Library.Char_ord" "HOL-Library.AList"
begin

section \<open>Syrah Bridge: the rule matcher, the held-flow registry and the flow codec\<close>

text \<open>
  A shallow embedding of \<^verbatim>\<open>syrah_bridge.py\<close> (class \<^verbatim>\<open>SyrahBridge\<close>).
  Python strings are \<^typ>\<open>string\<close>, \<^verbatim>\<open>Optional[T]\<close> is \<^typ>\<open>'a option\<close>,
  a \<^verbatim>\<open>dict\<close> whose items are iterated or serialised is an association list in
  insertion order, and the registry \<^verbatim>\<open>intercepted_flows\<close> is a map from flow ids
  to flow references. Values carry the types the dataclass and the annotations declare.
\<close>

subsection \<open>Glob patterns\<close>

text \<open>
  Modelled from the spec: \<^verbatim>\<open>fnmatch.fnmatch\<close> is Python's standard library and is
  not part of the repository. The spec gives the syntax (\<^verbatim>\<open>*\<close> any run of characters,
  path separators included; \<^verbatim>\<open>?\<close> one character; \<^verbatim>\<open>[...]\<close> a character class) and
  the anchoring to the whole string. The model follows the library's two stages: the
  pattern is translated to a list of tokens, and the tokens are matched against the whole
  string. In a class a leading \<^verbatim>\<open>!\<close> negates, a \<^verbatim>\<open>]\<close> in first position is a member,
  \<^verbatim>\<open>a-b\<close> is a range (empty when \<^verbatim>\<open>a\<close> is above \<^verbatim>\<open>b\<close>), and a \<^verbatim>\<open>[\<close> with no
  closing \<^verbatim>\<open>]\<close> stands for itself. Characters are 8-bit.
\<close>

datatype set_item = Member char | Char_range char char

datatype glob_tok = Star | Any_char | Lit char | Char_set bool "set_item list"

fun find_close :: "string \<Rightarrow> nat option" where
  "find_close [] = None"
| "find_close (c # cs) = (if c = CHR '']'' then Some 0 else map_option Suc (find_close cs))"

definition bracket_end :: "string \<Rightarrow> nat option" where
  "bracket_end p =
     (let j0 = (if take 1 p = ''!'' then 1 else 0);
          j1 = (if take 1 (drop j0 p) = '']'' then j0 + 1 else j0)
      in map_option (\<lambda>k. j1 + k) (find_close (drop j1 p)))"

fun parse_items :: "string \<Rightarrow> set_item list" where
  "parse_items (a # m # b # rest) =
     (if m = CHR ''-'' then Char_range a b # parse_items rest
      else Member a # parse_items (m # b # rest))"
| "parse_items (a # rest) = Member a # parse_items rest"
| "parse_items [] = []"

definition char_set :: "string \<Rightarrow> glob_tok" where
  "char_set stuff =
     (if take 1 stuff = ''!'' then Char_set True (parse_items (drop 1 stuff))
      else Char_set False (parse_items stuff))"

fun translate :: "string \<Rightarrow> glob_tok list" where
  "translate [] = []"
| "translate (c # p) =
     (if c = CHR ''*'' then
        (case translate p of Star # ts \<Rightarrow> Star # ts | ts \<Rightarrow> Star # ts)
      else if c = CHR ''?'' then Any_char # translate p
      else if c = CHR ''['' then
        (case bracket_end p of
           None \<Rightarrow> Lit c # translate p
         | Some j \<Rightarrow> char_set (take j p) # translate (drop (Suc j) p))
      else Lit c # translate p)"

fun in_item :: "char \<Rightarrow> set_item \<Rightarrow> bool" where
  "in_item c (Member a) = (c = a)"
| "in_item c (Char_range a b) = (a \<le> c \<and> c \<le> b)"

fun tok_accepts :: "glob_tok \<Rightarrow> char \<Rightarrow> bool" where
  "tok_accepts Star c = True"
| "tok_accepts Any_char c = True"
| "tok_accepts (Lit a) c = (c = a)"
| "tok_accepts (Char_set neg items) c = (list_ex (in_item c) items \<noteq> neg)"

fun match_toks :: "glob_tok list \<Rightarrow> string \<Rightarrow> bool" where
  "match_toks [] s = (s = [])"
| "match_toks (Star # ts) [] = match_toks ts []"
| "match_toks (Star # ts) (c # s) = (match_toks ts (c # s) \<or> match_toks (Star # ts) s)"
| "match_toks (t # ts) [] = False"
| "match_toks (t # ts) (c # s) = (tok_accepts t c \<and> match_toks ts s)"

definition normcase :: "string \<Rightarrow> string" where
  \<comment> \<open>\<^verbatim>\<open>os.path.normcase\<close> on POSIX (the file ships in the macOS runner): the identity.\<close>
  "normcase s = s"

definition fnmatch :: "string \<Rightarrow> string \<Rightarrow> bool" where
  "fnmatch name pat = match_toks (translate (normcase pat)) (normcase name)"

subsection \<open>Rules\<close>

datatype RuleType = BREAKPOINT | MAP_LOCAL | MAP_REMOTE | BLOCK

fun RuleType_value :: "RuleType \<Rightarrow> string" where
  "RuleType_value BREAKPOINT = ''breakpoint''"
| "RuleType_value MAP_LOCAL = ''mapLocal''"
| "RuleType_value MAP_REMOTE = ''mapRemote''"
| "RuleType_value BLOCK = ''block''"

type_synonym 'v dict = "(string \<times> 'v) list"

text \<open>
  The dataclass \<^verbatim>\<open>ProxyRule\<close>. The fields \<^verbatim>\<open>id\<close>, \<^verbatim>\<open>type\<close>,
  \<^verbatim>\<open>status_code\<close>, \<^verbatim>\<open>headers\<close> and \<^verbatim>\<open>body\<close> carry the suffix
  \<open>_rule\<close>, since the flow's request and response have fields of the same names.
\<close>

record ProxyRule =
  id_rule :: string
  type_rule :: string
  url_pattern :: string
  enabled :: bool
  phase :: string
  file_path :: "string option"
  target_url :: "string option"
  status_code_rule :: "int option"
  headers_rule :: "string dict option"
  body_rule :: "string option"

subsection \<open>The engine's flows\<close>

text \<open>
  A flow belongs to the interception engine (mitmproxy), which is not part of the
  repository. It is modelled by the fields the bridge reads and writes; the engine's own
  bookkeeping behind a field (the host, port and path of a rewritten URL, for instance)
  is outside the model. \<^verbatim>\<open>pretty_url\<close> reads the request's URL. The engine's
  operations that the bridge cannot compute itself are parameters, collected in the
  record \<open>engine\<close>: the text decoder behind \<^verbatim>\<open>get_text\<close> (\<open>None\<close> when it
  raises), the text encoder behind \<^verbatim>\<open>set_text\<close>, the file system behind
  \<^verbatim>\<open>open(...).read()\<close> (\<open>None\<close> when it raises), the constructor
  \<^verbatim>\<open>http.Response.make\<close> and the clock \<^verbatim>\<open>time.time()\<close>.
  The request's \<^verbatim>\<open>method\<close> is the field \<open>method_req\<close>; the response's fields
  that share a name with the request's carry the suffix \<open>_resp\<close>.
\<close>

type_synonym byte = "8 word"

record Request =
  method_req :: string
  url :: string
  host :: string
  port :: int
  path :: string
  http_version :: string
  headers :: "string dict"
  content :: "byte list option"
  timestamp_start :: real
  timestamp_end :: "real option"

record Response =
  status_code :: int
  reason :: string
  http_version_resp :: string
  headers_resp :: "string dict"
  content_resp :: "byte list option"
  timestamp_start_resp :: real
  timestamp_end_resp :: "real option"

record Flow =
  id_flow :: string
  intercepted :: bool
  request :: Request
  response :: "Response option"
  error :: "string option"

record engine =
  get_text_request :: "Request \<Rightarrow> string option"
  get_text_response :: "Response \<Rightarrow> string option"
  encode_text :: "string \<Rightarrow> byte list"
  read_file :: "string \<Rightarrow> byte list option"
  make_response :: "int \<Rightarrow> byte list \<Rightarrow> string dict \<Rightarrow> Response"
  time_now :: real

definition pretty_url :: "Request \<Rightarrow> string" where
  "pretty_url rq = url rq"

definition set_text_request :: "engine \<Rightarrow> string \<Rightarrow> Request \<Rightarrow> Request" where
  \<comment> \<open>Modelled from the spec: the engine's \<^verbatim>\<open>set_text\<close> is not in the repository;
      "body replacement sets the textual body and recomputes length/encoding". The length
      is read off the body when a flow is serialised.\<close>
  "set_text_request E t rq = rq\<lparr>content := Some (encode_text E t)\<rparr>"

definition set_text_response :: "engine \<Rightarrow> string \<Rightarrow> Response \<Rightarrow> Response" where
  \<comment> \<open>Modelled from the spec: as \<open>set_text_request\<close>.\<close>
  "set_text_response E t rs = rs\<lparr>content_resp := Some (encode_text E t)\<rparr>"

definition replace_headers :: "string dict \<Rightarrow> string dict" where
  \<comment> \<open>\<^verbatim>\<open>headers.clear()\<close>, then \<^verbatim>\<open>headers[k] = v\<close> for each item in order.\<close>
  "replace_headers items = foldl (\<lambda>d (k, v). AList.update k v d) [] items"

subsection \<open>Wire messages\<close>

text \<open>
  A decoded command is a dictionary; \<open>None\<close> is a missing key, as \<^verbatim>\<open>cmd.get\<close> and
  \<^verbatim>\<open>"k" in d\<close> see it. The field \<open>rules_field\<close> is the key \<^verbatim>\<open>rules\<close>, and
  the fields of a rule object are the keys \<^verbatim>\<open>id\<close>, \<^verbatim>\<open>type\<close>, \<^verbatim>\<open>urlPattern\<close>,
  \<^verbatim>\<open>enabled\<close>, \<^verbatim>\<open>phase\<close>, \<^verbatim>\<open>filePath\<close>, \<^verbatim>\<open>targetUrl\<close>, \<^verbatim>\<open>statusCode\<close>,
  \<^verbatim>\<open>headers\<close> and \<^verbatim>\<open>body\<close>.
\<close>

record rule_object =
  key_id :: "string option"
  key_type :: "string option"
  key_urlPattern :: "string option"
  key_enabled :: "bool option"
  key_phase :: "string option"
  key_filePath :: "string option"
  key_targetUrl :: "string option"
  key_statusCode :: "int option"
  key_headers :: "string dict option"
  key_body :: "string option"

record request_mod =
  mod_method :: "string option"
  mod_url :: "string option"
  mod_headers :: "string dict option"
  mod_body :: "string option"

record response_mod =
  mod_status_code :: "int option"
  mod_headers_resp :: "string dict option"
  mod_body_resp :: "string option"

record modified_object =
  mod_request :: "request_mod option"
  mod_response :: "response_mod option"

record cmd =
  command :: "string option"
  flowId :: "string option"
  modified :: "modified_object option"
  rules_field :: "rule_object list option"

datatype json = JNull | JBool bool | JInt int | JFloat real | JStr string | JObj "(string \<times> json) list"

subsection \<open>The bridge's state and its effects\<close>

datatype log_msg =
    Invalid_JSON_command
  | Unknown_command "string option"
  | Resumed_flow string
  | Flow_not_found_for_resume "string option"
  | Killed_flow string
  | Flow_not_found_for_kill "string option"
  | Updated_rules nat
  | Breakpoint_hit_request string
  | Map_remote string string
  | Blocked_request string
  | Map_local string string
  | Map_local_error
  | Breakpoint_hit_response string

datatype effect =
    Intercept nat
  | Resume nat
  | Kill nat
  | Broadcast json
  | Send nat json
  | Log_info log_msg
  | Log_warning log_msg
  | Log_error log_msg

text \<open>
  Flows are mutable objects shared between the engine, the hooks and the registry, so
  the state holds them in a store \<open>flows\<close> indexed by reference, and the registry
  \<open>intercepted_flows\<close> maps a flow id to a reference. \<open>loop_running\<close> says that
  \<^verbatim>\<open>self._loop\<close> is set. Everything the bridge does to the outside (engine calls,
  messages handed to the WebSocket loop, log records) is appended to \<open>trace\<close>.
\<close>

record bridge =
  ws_clients :: "nat set"
  loop_running :: bool
  rules :: "ProxyRule list"
  intercepted_flows :: "string \<rightharpoonup> nat"
  flows :: "nat \<Rightarrow> Flow"
  trace :: "effect list"

definition emit :: "effect \<Rightarrow> bridge \<Rightarrow> bridge" where
  "emit e s = s\<lparr>trace := trace s @ [e]\<rparr>"

definition update_flow :: "nat \<Rightarrow> (Flow \<Rightarrow> Flow) \<Rightarrow> bridge \<Rightarrow> bridge" where
  "update_flow r f s = s\<lparr>flows := (flows s)(r := f (flows s r))\<rparr>"

definition intercept :: "nat \<Rightarrow> bridge \<Rightarrow> bridge" where
  \<comment> \<open>\<^verbatim>\<open>flow.intercept()\<close>\<close>
  "intercept r s = emit (Intercept r) (update_flow r (\<lambda>f. f\<lparr>intercepted := True\<rparr>) s)"

definition resume :: "nat \<Rightarrow> bridge \<Rightarrow> bridge" where
  \<comment> \<open>\<^verbatim>\<open>flow.resume()\<close>\<close>
  "resume r s = emit (Resume r) (update_flow r (\<lambda>f. f\<lparr>intercepted := False\<rparr>) s)"

definition kill :: "nat \<Rightarrow> bridge \<Rightarrow> bridge" where
  \<comment> \<open>\<^verbatim>\<open>flow.kill()\<close>\<close>
  "kill r s = emit (Kill r) (update_flow r (\<lambda>f. f\<lparr>intercepted := False\<rparr>) s)"

definition register :: "nat \<Rightarrow> bridge \<Rightarrow> bridge" where
  \<comment> \<open>\<^verbatim>\<open>self.intercepted_flows[flow.id] = flow\<close>\<close>
  "register r s = s\<lparr>intercepted_flows := (intercepted_flows s)(id_flow (flows s r) \<mapsto> r)\<rparr>"

subsection \<open>The rule matcher\<close>

definition matches_pattern :: "string \<Rightarrow> string \<Rightarrow> bool" where
  "matches_pattern u pattern = fnmatch u pattern"

text \<open>
  The loop of \<^verbatim>\<open>_find_matching_rule\<close> over \<^verbatim>\<open>self.rules\<close>. The test
  \<^verbatim>\<open>rule_type and rule.type != rule_type\<close> reads the filter by its truth value:
  \<^verbatim>\<open>None\<close> and the empty string are both false.
\<close>

fun find_rule :: "ProxyRule list \<Rightarrow> string \<Rightarrow> string \<Rightarrow> string option \<Rightarrow> ProxyRule option" where
  "find_rule [] u ph rule_type = None"
| "find_rule (rule # rest) u ph rule_type =
     (if \<not> enabled rule then find_rule rest u ph rule_type
      else if phase rule \<noteq> ph then find_rule rest u ph rule_type
      else if (case rule_type of None \<Rightarrow> False | Some t \<Rightarrow> t \<noteq> [] \<and> type_rule rule \<noteq> t)
        then find_rule rest u ph rule_type
      else if matches_pattern u (url_pattern rule) then Some rule
      else find_rule rest u ph rule_type)"

definition find_matching_rule :: "bridge \<Rightarrow> Flow \<Rightarrow> string \<Rightarrow> string option \<Rightarrow> ProxyRule option" where
  "find_matching_rule s flow ph rule_type =
     find_rule (rules s) (pretty_url (request flow)) ph rule_type"

subsection \<open>The flow codec\<close>

definition hex_digit :: "nat \<Rightarrow> char" where
  "hex_digit n = ''0123456789abcdef'' ! (n mod 16)"

definition hex :: "byte list \<Rightarrow> string" where
  \<comment> \<open>\<^verbatim>\<open>bytes.hex()\<close>\<close>
  "hex bs = concat (map (\<lambda>b. [hex_digit (unat b div 16), hex_digit (unat b mod 16)]) bs)"

definition content_length :: "byte list option \<Rightarrow> int" where
  \<comment> \<open>\<^verbatim>\<open>len(content) if content else 0\<close>\<close>
  "content_length c = (case c of None \<Rightarrow> 0 | Some bs \<Rightarrow> if bs = [] then 0 else int (length bs))"

definition small_body :: "byte list option \<Rightarrow> bool" where
  \<comment> \<open>\<^verbatim>\<open>content and len(content) < 1_000_000\<close>\<close>
  "small_body c = (case c of None \<Rightarrow> False | Some bs \<Rightarrow> bs \<noteq> [] \<and> length bs < 1000000)"

definition json_headers :: "string dict \<Rightarrow> json" where
  \<comment> \<open>\<^verbatim>\<open>dict(headers)\<close>\<close>
  "json_headers hs = JObj (map (\<lambda>(k, v). (k, JStr v)) hs)"

definition json_opt_float :: "real option \<Rightarrow> json" where
  "json_opt_float t = (case t of None \<Rightarrow> JNull | Some x \<Rightarrow> JFloat x)"

definition request_data :: "engine \<Rightarrow> Request \<Rightarrow> json dict" where
  "request_data E rq =
     (let d = [(''method'', JStr (method_req rq)),
               (''url'', JStr (pretty_url rq)),
               (''host'', JStr (host rq)),
               (''port'', JInt (port rq)),
               (''path'', JStr (path rq)),
               (''httpVersion'', JStr (http_version rq)),
               (''headers'', json_headers (headers rq)),
               (''contentLength'', JInt (content_length (content rq))),
               (''timestampStart'', JFloat (timestamp_start rq)),
               (''timestampEnd'', json_opt_float (timestamp_end rq))]
      in if small_body (content rq) then
           (case get_text_request E rq of
              Some t \<Rightarrow> AList.update ''body'' (JStr t) d
            | None \<Rightarrow>
                AList.update ''bodyBase64''
                  (case content rq of
                     None \<Rightarrow> JNull
                   | Some bs \<Rightarrow> if bs = [] then JNull else JStr (hex bs))
                  (AList.update ''body'' JNull d))
         else d)"

definition response_data :: "engine \<Rightarrow> Response \<Rightarrow> json dict" where
  "response_data E rs =
     (let d = [(''statusCode'', JInt (status_code rs)),
               (''reason'', JStr (reason rs)),
               (''httpVersion'', JStr (http_version_resp rs)),
               (''headers'', json_headers (headers_resp rs)),
               (''contentLength'', JInt (content_length (content_resp rs))),
               (''timestampStart'', JFloat (timestamp_start_resp rs)),
               (''timestampEnd'', json_opt_float (timestamp_end_resp rs))]
      in if small_body (content_resp rs) then
           (case get_text_response E rs of
              Some t \<Rightarrow> AList.update ''body'' (JStr t) d
            | None \<Rightarrow> AList.update ''body'' JNull d)
         else d)"

definition serialize_flow :: "engine \<Rightarrow> Flow \<Rightarrow> string \<Rightarrow> json" where
  "serialize_flow E flow ph =
     JObj [(''type'', JStr ''flow''),
           (''phase'', JStr ph),
           (''id'', JStr (id_flow flow)),
           (''intercepted'', JBool (intercepted flow)),
           (''request'', JObj (request_data E (request flow))),
           (''response'', (case response flow of
                             None \<Rightarrow> JNull
                           | Some rs \<Rightarrow> JObj (response_data E rs))),
           (''timestamp'', JFloat (time_now E)),
           (''error'', (case error flow of None \<Rightarrow> JNull | Some e \<Rightarrow> JStr e))]"

definition send_flow_to_clients :: "engine \<Rightarrow> bridge \<Rightarrow> nat \<Rightarrow> string \<Rightarrow> bridge" where
  "send_flow_to_clients E s r ph =
     (if ws_clients s = {} then s
      else let event = serialize_flow E (flows s r) ph
           in if loop_running s then emit (Broadcast event) s else s)"

subsection \<open>Commands\<close>

definition modify_request :: "engine \<Rightarrow> request_mod \<Rightarrow> Request \<Rightarrow> Request" where
  "modify_request E req_mod rq =
     (let r1 = (case mod_method req_mod of None \<Rightarrow> rq | Some v \<Rightarrow> rq\<lparr>method_req := v\<rparr>);
          r2 = (case mod_url req_mod of None \<Rightarrow> r1 | Some v \<Rightarrow> r1\<lparr>url := v\<rparr>);
          r3 = (case mod_headers req_mod of
                  None \<Rightarrow> r2
                | Some items \<Rightarrow> r2\<lparr>headers := replace_headers items\<rparr>)
      in case mod_body req_mod of None \<Rightarrow> r3 | Some b \<Rightarrow> set_text_request E b r3)"

definition modify_response :: "engine \<Rightarrow> response_mod \<Rightarrow> Response \<Rightarrow> Response" where
  "modify_response E resp_mod rs =
     (let r1 = (case mod_status_code resp_mod of None \<Rightarrow> rs | Some v \<Rightarrow> rs\<lparr>status_code := v\<rparr>);
          r2 = (case mod_headers_resp resp_mod of
                  None \<Rightarrow> r1
                | Some items \<Rightarrow> r1\<lparr>headers_resp := replace_headers items\<rparr>)
      in case mod_body_resp resp_mod of None \<Rightarrow> r2 | Some b \<Rightarrow> set_text_response E b r2)"

text \<open>
  The block under \<^verbatim>\<open>if modified:\<close>. A missing \<^verbatim>\<open>modified\<close> and an empty one both
  leave the flow as it is.
\<close>

definition apply_modified :: "engine \<Rightarrow> modified_object option \<Rightarrow> Flow \<Rightarrow> Flow" where
  "apply_modified E m flow =
     (case m of
        None \<Rightarrow> flow
      | Some md \<Rightarrow>
          (let f1 = (case mod_request md of
                       None \<Rightarrow> flow
                     | Some req_mod \<Rightarrow> flow\<lparr>request := modify_request E req_mod (request flow)\<rparr>)
           in case mod_response md of
                None \<Rightarrow> f1
              | Some resp_mod \<Rightarrow>
                  (case response f1 of
                     None \<Rightarrow> f1
                   | Some rs \<Rightarrow> f1\<lparr>response := Some (modify_response E resp_mod rs)\<rparr>)))"

definition pop_flow :: "string \<Rightarrow> bridge \<Rightarrow> bridge" where
  \<comment> \<open>\<^verbatim>\<open>self.intercepted_flows.pop(flow_id)\<close>\<close>
  "pop_flow fid s = s\<lparr>intercepted_flows := (intercepted_flows s)(fid := None)\<rparr>"

definition lookup_flow :: "bridge \<Rightarrow> string option \<Rightarrow> nat option" where
  \<comment> \<open>\<^verbatim>\<open>flow_id in self.intercepted_flows\<close>, with the entry found\<close>
  "lookup_flow s flow_id = (case flow_id of None \<Rightarrow> None | Some fid \<Rightarrow> intercepted_flows s fid)"

definition handle_resume :: "engine \<Rightarrow> bridge \<Rightarrow> cmd \<Rightarrow> bridge" where
  "handle_resume E s c =
     (case lookup_flow s (flowId c) of
        Some r \<Rightarrow>
          (let fid = the (flowId c);
               s1 = pop_flow fid s;
               s2 = update_flow r (apply_modified E (modified c)) s1
           in emit (Log_info (Resumed_flow fid)) (resume r s2))
      | None \<Rightarrow> emit (Log_warning (Flow_not_found_for_resume (flowId c))) s)"

definition handle_kill :: "bridge \<Rightarrow> cmd \<Rightarrow> bridge" where
  "handle_kill s c =
     (case lookup_flow s (flowId c) of
        Some r \<Rightarrow>
          (let fid = the (flowId c);
               s1 = pop_flow fid s
           in emit (Log_info (Killed_flow fid)) (kill r s1))
      | None \<Rightarrow> emit (Log_warning (Flow_not_found_for_kill (flowId c))) s)"

definition get_or :: "'a option \<Rightarrow> 'a \<Rightarrow> 'a" where
  \<comment> \<open>\<^verbatim>\<open>d.get(key, default)\<close> on the key's entry\<close>
  "get_or v d = (case v of None \<Rightarrow> d | Some x \<Rightarrow> x)"

definition decode_rule :: "rule_object \<Rightarrow> ProxyRule" where
  "decode_rule r =
     \<lparr>id_rule = get_or (key_id r) [],
      type_rule = get_or (key_type r) [],
      url_pattern = get_or (key_urlPattern r) [],
      enabled = get_or (key_enabled r) True,
      phase = get_or (key_phase r) ''request'',
      file_path = key_filePath r,
      target_url = key_targetUrl r,
      status_code_rule = key_statusCode r,
      headers_rule = key_headers r,
      body_rule = key_body r\<rparr>"

definition handle_update_rules :: "bridge \<Rightarrow> cmd \<Rightarrow> bridge" where
  "handle_update_rules s c =
     (let rules_data = get_or (rules_field c) [];
          s1 = s\<lparr>rules := map decode_rule rules_data\<rparr>
      in emit (Log_info (Updated_rules (length (rules s1)))) s1)"

text \<open>
  \<^verbatim>\<open>_process_command\<close> for the client \<open>ws\<close>; the message is \<open>None\<close> when
  \<^verbatim>\<open>json.loads\<close> raises.
\<close>

definition process_command :: "engine \<Rightarrow> bridge \<Rightarrow> nat \<Rightarrow> cmd option \<Rightarrow> bridge" where
  "process_command E s ws message =
     (case message of
        None \<Rightarrow> emit (Log_error Invalid_JSON_command) s
      | Some c \<Rightarrow>
          if command c = Some ''resume'' then handle_resume E s c
          else if command c = Some ''kill'' then handle_kill s c
          else if command c = Some ''updateRules'' then handle_update_rules s c
          else if command c = Some ''ping'' then emit (Send ws (JObj [(''type'', JStr ''pong'')])) s
          else emit (Log_warning (Unknown_command (command c))) s)"

subsection \<open>The engine's hooks\<close>

definition request_breakpoint :: "bridge \<Rightarrow> nat \<Rightarrow> bridge" where
  \<comment> \<open>\<^verbatim>\<open>request\<close>, "Check for breakpoint"\<close>
  "request_breakpoint s r =
     (case find_matching_rule s (flows s r) ''request'' (Some (RuleType_value BREAKPOINT)) of
        None \<Rightarrow> s
      | Some breakpoint_rule \<Rightarrow>
          (let s1 = register r (intercept r s)
           in emit (Log_info (Breakpoint_hit_request (pretty_url (request (flows s1 r))))) s1))"

definition request_map_remote :: "bridge \<Rightarrow> nat \<Rightarrow> bridge" where
  \<comment> \<open>\<^verbatim>\<open>request\<close>, "Check for map remote"\<close>
  "request_map_remote s r =
     (case find_matching_rule s (flows s r) ''request'' (Some (RuleType_value MAP_REMOTE)) of
        None \<Rightarrow> s
      | Some map_remote_rule \<Rightarrow>
          (case target_url map_remote_rule of
             None \<Rightarrow> s
           | Some t \<Rightarrow>
               if t = [] then s
               else (let original_url = pretty_url (request (flows s r));
                         s1 = update_flow r (\<lambda>f. f\<lparr>request := (request f)\<lparr>url := t\<rparr>\<rparr>) s
                     in emit (Log_info (Map_remote original_url t)) s1)))"

definition request_block_or_send :: "engine \<Rightarrow> bridge \<Rightarrow> nat \<Rightarrow> bridge" where
  \<comment> \<open>\<^verbatim>\<open>request\<close>, "Check for block" and "Send flow to Flutter app"\<close>
  "request_block_or_send E s r =
     (case find_matching_rule s (flows s r) ''request'' (Some (RuleType_value BLOCK)) of
        Some block_rule \<Rightarrow>
          (let s1 = kill r s
           in emit (Log_info (Blocked_request (pretty_url (request (flows s1 r))))) s1)
      | None \<Rightarrow> send_flow_to_clients E s r ''request'')"

definition request_hook :: "engine \<Rightarrow> bridge \<Rightarrow> nat \<Rightarrow> bridge" where
  "request_hook E s r = request_block_or_send E (request_map_remote (request_breakpoint s r) r) r"

definition truthy_dict :: "'v dict option \<Rightarrow> bool" where
  "truthy_dict d = (case d of None \<Rightarrow> False | Some items \<Rightarrow> items \<noteq> [])"

definition response_map_local :: "engine \<Rightarrow> bridge \<Rightarrow> nat \<Rightarrow> bridge" where
  \<comment> \<open>\<^verbatim>\<open>response\<close>, "Check for map local"\<close>
  "response_map_local E s r =
     (case find_matching_rule s (flows s r) ''response'' (Some (RuleType_value MAP_LOCAL)) of
        None \<Rightarrow> s
      | Some map_local_rule \<Rightarrow>
          (case file_path map_local_rule of
             None \<Rightarrow> s
           | Some p \<Rightarrow>
               if p = [] then s
               else (case read_file E p of
                       None \<Rightarrow> emit (Log_error Map_local_error) s
                     | Some bs \<Rightarrow>
                         (let code = (case status_code_rule map_local_rule of
                                        None \<Rightarrow> 200
                                      | Some n \<Rightarrow> if n = 0 then 200 else n);
                              hs = (if truthy_dict (headers_rule map_local_rule)
                                    then the (headers_rule map_local_rule)
                                    else [(''Content-Type'', ''application/octet-stream'')]);
                              s1 = update_flow r (\<lambda>f. f\<lparr>response := Some (make_response E code bs hs)\<rparr>) s
                          in emit (Log_info (Map_local (pretty_url (request (flows s1 r))) p)) s1))))"

definition response_breakpoint :: "bridge \<Rightarrow> nat \<Rightarrow> bridge" where
  \<comment> \<open>\<^verbatim>\<open>response\<close>, "Check for breakpoint"\<close>
  "response_breakpoint s r =
     (case find_matching_rule s (flows s r) ''response'' (Some (RuleType_value BREAKPOINT)) of
        None \<Rightarrow> s
      | Some breakpoint_rule \<Rightarrow>
          (let s1 = register r (intercept r s)
           in emit (Log_info (Breakpoint_hit_response (pretty_url (request (flows s1 r))))) s1))"

definition response_hook :: "engine \<Rightarrow> bridge \<Rightarrow> nat \<Rightarrow> bridge" where
  "response_hook E s r =
     send_flow_to_clients E (response_breakpoint (response_map_local E s r) r) r ''response''"

definition error_hook :: "engine \<Rightarrow> bridge \<Rightarrow> nat \<Rightarrow> bridge" where
  "error_hook E s r = send_flow_to_clients E s r ''error''"

subsection \<open>Runs\<close>

text \<open>
  What happens to a bridge over time: the engine calls a hook on a flow, or a client
  sends a message. A run applies a list of such events in order.
\<close>

datatype event = On_request nat | On_response nat | On_error nat | Message nat "cmd option"

fun step :: "engine \<Rightarrow> bridge \<Rightarrow> event \<Rightarrow> bridge" where
  "step E s (On_request r) = request_hook E s r"
| "step E s (On_response r) = response_hook E s r"
| "step E s (On_error r) = error_hook E s r"
| "step E s (Message ws m) = process_command E s ws m"

definition run :: "engine \<Rightarrow> bridge \<Rightarrow> event list \<Rightarrow> bridge" where
  "run E s evs = foldl (step E) s evs"

subsection \<open>The specification's wording, and sample inputs\<close>

text \<open>
  A rule qualifies for a URL, a phase and a type filter when it is enabled, its phase
  is the given one, its type is the filter's when a filter is in force, and its pattern
  matches the URL. The matcher takes a filter to be in force when it is a non-empty
  string.
\<close>

definition filter_in_force :: "string option \<Rightarrow> bool" where
  "filter_in_force rule_type = (case rule_type of None \<Rightarrow> False | Some t \<Rightarrow> t \<noteq> [])"

definition qualifies :: "string \<Rightarrow> string \<Rightarrow> string option \<Rightarrow> ProxyRule \<Rightarrow> bool" where
  "qualifies u ph rule_type rule =
     (enabled rule \<and> phase rule = ph
      \<and> (filter_in_force rule_type \<longrightarrow> Some (type_rule rule) = rule_type)
      \<and> matches_pattern u (url_pattern rule))"

text \<open>\<^verbatim>\<open>ProxyRule(id, type, url_pattern)\<close>, the other fields at the dataclass's defaults.\<close>

definition new_rule :: "string \<Rightarrow> string \<Rightarrow> string \<Rightarrow> ProxyRule" where
  "new_rule i t p =
     \<lparr>id_rule = i, type_rule = t, url_pattern = p, enabled = True, phase = ''request'',
      file_path = None, target_url = None, status_code_rule = None, headers_rule = None,
      body_rule = None\<rparr>"

definition sample_request :: "string \<Rightarrow> Request" where
  "sample_request u =
     \<lparr>method_req = ''GET'', url = u, host = ''a.com'', port = 443, path = ''/'',
      http_version = ''HTTP/1.1'', headers = [(''Host'', ''a.com''), (''Accept'', ''*/*'')],
      content = None, timestamp_start = 0, timestamp_end = None\<rparr>"

definition sample_response :: Response where
  "sample_response =
     \<lparr>status_code = 200, reason = ''OK'', http_version_resp = ''HTTP/1.1'',
      headers_resp = [(''Server'', ''s'')], content_resp = None,
      timestamp_start_resp = 0, timestamp_end_resp = None\<rparr>"

definition sample_flow :: "string \<Rightarrow> string \<Rightarrow> Flow" where
  "sample_flow i u =
     \<lparr>id_flow = i, intercepted = False, request = sample_request u, response = None,
      error = None\<rparr>"

definition sample_engine :: engine where
  "sample_engine =
     \<lparr>get_text_request = (\<lambda>rq. None),
      get_text_response = (\<lambda>rs. None),
      encode_text = map (\<lambda>c. of_nat (of_char c)),
      read_file = (\<lambda>p. None),
      make_response = (\<lambda>code bs hs. sample_response\<lparr>status_code := code, headers_resp := hs,
                                                     content_resp := Some bs\<rparr>),
      time_now = 0\<rparr>"

text \<open>A bridge with the given rules and one client (when \<open>up\<close>), all references holding one flow.\<close>

definition sample_bridge :: "bool \<Rightarrow> ProxyRule list \<Rightarrow> Flow \<Rightarrow> bridge" where
  "sample_bridge up rs f =
     \<lparr>ws_clients = (if up then {0} else {}), loop_running = up, rules = rs,
      intercepted_flows = Map.empty, flows = (\<lambda>r. f), trace = []\<rparr>"


text \<open>The rule object \<^verbatim>\<open>{}\<close>, and an \<^verbatim>\<open>updateRules\<close> command carrying an array.\<close>

definition empty_rule_object :: rule_object where
  "empty_rule_object =
     \<lparr>key_id = None, key_type = None, key_urlPattern = None, key_enabled = None,
      key_phase = None, key_filePath = None, key_targetUrl = None, key_statusCode = None,
      key_headers = None, key_body = None\<rparr>"

definition update_rules_cmd :: "rule_object list \<Rightarrow> cmd" where
  "update_rules_cmd rs =
     \<lparr>command = Some ''updateRules'', flowId = None, modified = None, rules_field = Some rs\<rparr>"

text \<open>The events that replace the rule set.\<close>

fun is_update_rules :: "event \<Rightarrow> bool" where
  "is_update_rules (Message ws (Some c)) = (command c = Some ''updateRules'')"
| "is_update_rules e = False"


text \<open>A flow whose request and response both carry the body \<open>bs\<close>, and an engine that decodes every body.\<close>

definition flow_with_bodies :: "byte list \<Rightarrow> Flow" where
  "flow_with_bodies bs =
     (sample_flow ''f'' ''https://a.com/x'')
       \<lparr>request := (sample_request ''https://a.com/x'')\<lparr>content := Some bs\<rparr>,
        response := Some (sample_response\<lparr>content_resp := Some bs\<rparr>)\<rparr>"

definition decoding_engine :: engine where
  "decoding_engine =
     sample_engine\<lparr>get_text_request := (\<lambda>rq. Some ''hi''), get_text_response := (\<lambda>rs. Some ''hi'')\<rparr>"

text \<open>The value found in a JSON document by following keys from the top.\<close>

fun at_path :: "string list \<Rightarrow> json \<Rightarrow> json option" where
  "at_path [] j = Some j"
| "at_path (k # ks) (JObj d) = (case map_of d k of None \<Rightarrow> None | Some v \<Rightarrow> at_path ks v)"
| "at_path (k # ks) j = None"



















definition map_remote_rule :: "string \<Rightarrow> string \<Rightarrow> string \<Rightarrow> ProxyRule" where
  "map_remote_rule i p t = (new_rule i ''mapRemote'' p)\<lparr>target_url := Some t\<rparr>"

section \<open>Properties\<close>

subsection \<open>How the primitives change the state\<close>

lemma emit_fields [simp]:
  "ws_clients (emit e s) = ws_clients s" "loop_running (emit e s) = loop_running s"
  "rules (emit e s) = rules s" "intercepted_flows (emit e s) = intercepted_flows s"
  "flows (emit e s) = flows s" "trace (emit e s) = trace s @ [e]"
  by (simp_all add: emit_def)

lemma update_flow_fields [simp]:
  "ws_clients (update_flow r g s) = ws_clients s" "loop_running (update_flow r g s) = loop_running s"
  "rules (update_flow r g s) = rules s" "intercepted_flows (update_flow r g s) = intercepted_flows s"
  "flows (update_flow r g s) = (flows s)(r := g (flows s r))" "trace (update_flow r g s) = trace s"
  by (simp_all add: update_flow_def)

lemma intercept_fields [simp]:
  "ws_clients (intercept r s) = ws_clients s" "loop_running (intercept r s) = loop_running s"
  "rules (intercept r s) = rules s" "intercepted_flows (intercept r s) = intercepted_flows s"
  "flows (intercept r s) = (flows s)(r := (flows s r)\<lparr>intercepted := True\<rparr>)"
  "trace (intercept r s) = trace s @ [Intercept r]"
  by (simp_all add: intercept_def)

lemma resume_fields [simp]:
  "ws_clients (resume r s) = ws_clients s" "loop_running (resume r s) = loop_running s"
  "rules (resume r s) = rules s" "intercepted_flows (resume r s) = intercepted_flows s"
  "flows (resume r s) = (flows s)(r := (flows s r)\<lparr>intercepted := False\<rparr>)"
  "trace (resume r s) = trace s @ [Resume r]"
  by (simp_all add: resume_def)

lemma kill_fields [simp]:
  "ws_clients (kill r s) = ws_clients s" "loop_running (kill r s) = loop_running s"
  "rules (kill r s) = rules s" "intercepted_flows (kill r s) = intercepted_flows s"
  "flows (kill r s) = (flows s)(r := (flows s r)\<lparr>intercepted := False\<rparr>)"
  "trace (kill r s) = trace s @ [Kill r]"
  by (simp_all add: kill_def)

lemma register_fields [simp]:
  "ws_clients (register r s) = ws_clients s" "loop_running (register r s) = loop_running s"
  "rules (register r s) = rules s"
  "intercepted_flows (register r s) = (intercepted_flows s)(id_flow (flows s r) \<mapsto> r)"
  "flows (register r s) = flows s" "trace (register r s) = trace s"
  by (simp_all add: register_def)

lemma pop_flow_fields [simp]:
  "ws_clients (pop_flow k s) = ws_clients s" "loop_running (pop_flow k s) = loop_running s"
  "rules (pop_flow k s) = rules s"
  "intercepted_flows (pop_flow k s) = (intercepted_flows s)(k := None)"
  "flows (pop_flow k s) = flows s" "trace (pop_flow k s) = trace s"
  by (simp_all add: pop_flow_def)

lemma send_fields [simp]:
  "ws_clients (send_flow_to_clients E s r ph) = ws_clients s"
  "loop_running (send_flow_to_clients E s r ph) = loop_running s"
  "rules (send_flow_to_clients E s r ph) = rules s"
  "intercepted_flows (send_flow_to_clients E s r ph) = intercepted_flows s"
  "flows (send_flow_to_clients E s r ph) = flows s"
  "trace (send_flow_to_clients E s r ph) =
     trace s @ (if ws_clients s \<noteq> {} \<and> loop_running s
                then [Broadcast (serialize_flow E (flows s r) ph)] else [])"
  by (simp_all add: send_flow_to_clients_def Let_def)

lemma find_matching_rule_cong:
  "rules s' = rules s \<Longrightarrow> request f' = request f \<Longrightarrow>
   find_matching_rule s' f' ph rt = find_matching_rule s f ph rt"
  by (simp add: find_matching_rule_def)

lemmas sample_defs =
  sample_bridge_def sample_flow_def sample_request_def sample_response_def sample_engine_def
  new_rule_def

lemmas glob_defs = matches_pattern_def fnmatch_def normcase_def

subsection \<open>The rule matcher\<close>

lemma find_rule_find: "find_rule rs u ph rt = List.find (qualifies u ph rt) rs"
  by (induction rs) (auto simp: qualifies_def filter_in_force_def split: option.splits)

text \<open>
  C1, as the code has it. \<^verbatim>\<open>_find_matching_rule\<close> returns the first rule in
  declaration order that is enabled, has the given phase, has the filter's type when the
  filter is a non-empty string, and whose pattern matches the flow's request URL. It
  returns \<open>None\<close> exactly when no rule qualifies, and a rule it returns is enabled.
\<close>

theorem find_matching_rule_first:
  "(find_matching_rule s flow ph rt = None \<longleftrightarrow>
      (\<forall>rule \<in> set (rules s). \<not> qualifies (pretty_url (request flow)) ph rt rule))
   \<and> (find_matching_rule s flow ph rt = Some rule \<longleftrightarrow>
        (\<exists>i < length (rules s).
           rules s ! i = rule \<and> qualifies (pretty_url (request flow)) ph rt rule
           \<and> (\<forall>j < i. \<not> qualifies (pretty_url (request flow)) ph rt (rules s ! j))))
   \<and> (find_matching_rule s flow ph rt = Some rule \<longrightarrow> enabled rule)"
proof -
  let ?q = "qualifies (pretty_url (request flow)) ph rt"
  have eq: "find_matching_rule s flow ph rt = List.find ?q (rules s)"
    by (simp add: find_matching_rule_def find_rule_find)
  have none: "List.find ?q (rules s) = None \<longleftrightarrow> (\<forall>rule \<in> set (rules s). \<not> ?q rule)"
    by (auto simp: find_None_iff)
  have some: "List.find ?q (rules s) = Some rule \<longleftrightarrow>
      (\<exists>i < length (rules s). rules s ! i = rule \<and> ?q rule \<and> (\<forall>j < i. \<not> ?q (rules s ! j)))"
    by (auto simp: find_Some_iff)
  have en: "List.find ?q (rules s) = Some rule \<longrightarrow> enabled rule"
    using some by (auto simp: qualifies_def)
  show ?thesis using eq none some en by simp
qed

theorem find_matching_rule_first_witness:
  "find_matching_rule
     (sample_bridge True
        [new_rule ''1'' ''block'' ''*.png'', new_rule ''2'' ''breakpoint'' ''*/secret*'']
        (sample_flow ''f'' ''https://a.com/secret/x''))
     (sample_flow ''f'' ''https://a.com/secret/x'') ''request'' (Some ''breakpoint'')
   = Some (new_rule ''2'' ''breakpoint'' ''*/secret*'')
   \<and> enabled (new_rule ''2'' ''breakpoint'' ''*/secret*'')"
  using find_matching_rule_first
    [of "sample_bridge True
           [new_rule ''1'' ''block'' ''*.png'', new_rule ''2'' ''breakpoint'' ''*/secret*'']
           (sample_flow ''f'' ''https://a.com/secret/x'')"
        "sample_flow ''f'' ''https://a.com/secret/x''" "''request''" "Some ''breakpoint''"
        "new_rule ''2'' ''breakpoint'' ''*/secret*''"]
  by (simp add: find_matching_rule_def sample_defs pretty_url_def glob_defs)

text \<open>
  C1 as stated fails for the empty string as the type filter: the filter is given, and
  a rule of another type is returned.
\<close>

theorem find_matching_rule_empty_filter_counterexample:
  "find_matching_rule
     (sample_bridge True [new_rule ''1'' ''block'' ''*''] (sample_flow ''f'' ''https://a.com/x''))
     (sample_flow ''f'' ''https://a.com/x'') ''request'' (Some '''')
   = Some (new_rule ''1'' ''block'' ''*'')
   \<and> type_rule (new_rule ''1'' ''block'' ''*'') \<noteq> ''''"
  by (simp add: find_matching_rule_def sample_defs pretty_url_def glob_defs)


subsection \<open>Replacing the rule set\<close>

lemma handle_update_rules_fields [simp]:
  "rules (handle_update_rules s c) = map decode_rule (get_or (rules_field c) [])"
  "intercepted_flows (handle_update_rules s c) = intercepted_flows s"
  "flows (handle_update_rules s c) = flows s"
  "ws_clients (handle_update_rules s c) = ws_clients s"
  "loop_running (handle_update_rules s c) = loop_running s"
  "trace (handle_update_rules s c) =
     trace s @ [Log_info (Updated_rules (length (get_or (rules_field c) [])))]"
  by (simp_all add: handle_update_rules_def Let_def)

text \<open>
  C5, as the code has it. An \<^verbatim>\<open>updateRules\<close> command replaces the whole rule set by
  the rules decoded from the array, one per rule object and in the array's order; no
  object is rejected. A missing \<^verbatim>\<open>id\<close>, \<^verbatim>\<open>type\<close> or \<^verbatim>\<open>urlPattern\<close> is decoded
  as the empty string, a missing \<^verbatim>\<open>enabled\<close> as true, a missing \<^verbatim>\<open>phase\<close> as
  \<^verbatim>\<open>request\<close>, and the other fields as \<open>None\<close>.
\<close>

theorem update_rules_replaces:
  assumes "command c = Some ''updateRules''" and "rules_field c = Some rs"
  shows "length (rules (process_command E s ws (Some c))) = length rs
         \<and> (\<forall>i < length rs. rules (process_command E s ws (Some c)) ! i = decode_rule (rs ! i))
         \<and> (\<forall>r \<in> set rs.
               id_rule (decode_rule r) = (case key_id r of None \<Rightarrow> '''' | Some v \<Rightarrow> v)
             \<and> type_rule (decode_rule r) = (case key_type r of None \<Rightarrow> '''' | Some v \<Rightarrow> v)
             \<and> url_pattern (decode_rule r) = (case key_urlPattern r of None \<Rightarrow> '''' | Some v \<Rightarrow> v)
             \<and> enabled (decode_rule r) = (case key_enabled r of None \<Rightarrow> True | Some v \<Rightarrow> v)
             \<and> phase (decode_rule r) = (case key_phase r of None \<Rightarrow> ''request'' | Some v \<Rightarrow> v)
             \<and> file_path (decode_rule r) = key_filePath r
             \<and> target_url (decode_rule r) = key_targetUrl r
             \<and> status_code_rule (decode_rule r) = key_statusCode r
             \<and> headers_rule (decode_rule r) = key_headers r
             \<and> body_rule (decode_rule r) = key_body r)"
  using assms by (simp add: process_command_def decode_rule_def get_or_def)

theorem update_rules_replaces_witness:
  "rules (process_command sample_engine
            (sample_bridge True [new_rule ''old'' ''block'' ''*''] (sample_flow ''f'' ''u'')) 0
            (Some (update_rules_cmd
               [empty_rule_object\<lparr>key_id := Some ''a'', key_enabled := Some False\<rparr>,
                empty_rule_object])))
   = [(new_rule ''a'' '''' '''')\<lparr>enabled := False\<rparr>, new_rule '''' '''' '''']"
  using update_rules_replaces
    [of "update_rules_cmd [empty_rule_object\<lparr>key_id := Some ''a'', key_enabled := Some False\<rparr>, empty_rule_object]"
        "[empty_rule_object\<lparr>key_id := Some ''a'', key_enabled := Some False\<rparr>, empty_rule_object]"
        sample_engine "sample_bridge True [new_rule ''old'' ''block'' ''*''] (sample_flow ''f'' ''u'')" 0]
  by (simp add: update_rules_cmd_def empty_rule_object_def process_command_def decode_rule_def
        get_or_def new_rule_def)

text \<open>
  C5 as stated fails on the default of \<^verbatim>\<open>enabled\<close>: the empty rule object is decoded
  as an enabled rule.
\<close>

theorem update_rules_enabled_default_counterexample:
  "rules (process_command sample_engine (sample_bridge True [] (sample_flow ''f'' ''u'')) 0
            (Some (update_rules_cmd [empty_rule_object])))
   = [new_rule '''' '''' '''']
   \<and> enabled (new_rule '''' '''' '''')"
  by (simp add: update_rules_cmd_def empty_rule_object_def process_command_def decode_rule_def
        get_or_def new_rule_def)

lemma handle_resume_rules [simp]: "rules (handle_resume E s c) = rules s"
  by (simp add: handle_resume_def Let_def split: option.splits)

lemma handle_kill_rules [simp]: "rules (handle_kill s c) = rules s"
  by (simp add: handle_kill_def Let_def split: option.splits)

lemma request_hook_rules [simp]: "rules (request_hook E s r) = rules s"
  by (simp add: request_hook_def request_block_or_send_def request_map_remote_def
        request_breakpoint_def Let_def split: option.splits)

lemma response_hook_rules [simp]: "rules (response_hook E s r) = rules s"
  by (simp add: response_hook_def response_breakpoint_def response_map_local_def Let_def
        split: option.splits)

lemma error_hook_rules [simp]: "rules (error_hook E s r) = rules s"
  by (simp add: error_hook_def)

lemma step_rules: "\<not> is_update_rules e \<Longrightarrow> rules (step E s e) = rules s"
proof (cases e)
  case (Message ws m)
  assume "\<not> is_update_rules e"
  with Message show ?thesis
    by (cases m) (auto simp: process_command_def)
qed simp_all

lemma run_rules: "\<forall>e \<in> set evs. \<not> is_update_rules e \<Longrightarrow> rules (run E s evs) = rules s"
  unfolding run_def by (induction evs arbitrary: s) (simp_all add: step_rules)

lemma no_rules_no_match: "rules s = [] \<Longrightarrow> find_matching_rule s flow ph rt = None"
  by (simp add: find_matching_rule_def)

text \<open>
  C8. After an \<^verbatim>\<open>updateRules\<close> command with an empty array the rule set is empty,
  and it stays empty through every later hook call and every later message that is not
  an \<^verbatim>\<open>updateRules\<close> command; all that time \<^verbatim>\<open>_find_matching_rule\<close> returns
  \<open>None\<close> for every flow, phase and type filter.
\<close>

theorem empty_update_clears:
  assumes "command c = Some ''updateRules''" and "rules_field c = Some []"
  shows "rules (process_command E s ws (Some c)) = []
         \<and> (\<forall>evs. (\<forall>e \<in> set evs. \<not> is_update_rules e) \<longrightarrow>
               rules (run E (process_command E s ws (Some c)) evs) = []
               \<and> (\<forall>flow ph rt.
                     find_matching_rule (run E (process_command E s ws (Some c)) evs) flow ph rt = None))"
proof -
  let ?s = "process_command E s ws (Some c)"
  have e: "rules ?s = []" using assms by (simp add: process_command_def get_or_def)
  have "rules (run E ?s evs) = []" if "\<forall>e \<in> set evs. \<not> is_update_rules e" for evs
    using that e by (simp add: run_rules)
  then show ?thesis using e by (simp add: no_rules_no_match)
qed

theorem empty_update_clears_witness:
  "find_matching_rule
     (run sample_engine
        (process_command sample_engine
           (sample_bridge True [new_rule ''1'' ''block'' ''*''] (sample_flow ''f'' ''https://a.com/x'')) 0
           (Some (update_rules_cmd [])))
        [On_request 0, Message 0 None, On_response 0])
     (sample_flow ''f'' ''https://a.com/x'') ''request'' (Some ''block'') = None"
  using empty_update_clears
    [of "update_rules_cmd []" sample_engine
        "sample_bridge True [new_rule ''1'' ''block'' ''*''] (sample_flow ''f'' ''https://a.com/x'')" 0]
  by (simp add: update_rules_cmd_def)

subsection \<open>The flow codec\<close>

lemma request_body_text:
  "small_body (content rq) \<Longrightarrow> get_text_request E rq = Some t \<Longrightarrow>
   map_of (request_data E rq) ''body'' = Some (JStr t)
   \<and> map_of (request_data E rq) ''bodyBase64'' = None"
  by (simp add: request_data_def)

lemma request_body_undecodable:
  "content rq = Some bs \<Longrightarrow> small_body (content rq) \<Longrightarrow> get_text_request E rq = None \<Longrightarrow>
   map_of (request_data E rq) ''body'' = Some JNull
   \<and> map_of (request_data E rq) ''bodyBase64'' = Some (JStr (hex bs))"
  by (simp add: request_data_def small_body_def)

lemma request_body_absent:
  "\<not> small_body (content rq) \<Longrightarrow>
   map_of (request_data E rq) ''body'' = None
   \<and> map_of (request_data E rq) ''bodyBase64'' = None"
  by (simp add: request_data_def)

lemma response_body_text:
  "small_body (content_resp rs) \<Longrightarrow> get_text_response E rs = Some t \<Longrightarrow>
   map_of (response_data E rs) ''body'' = Some (JStr t)
   \<and> map_of (response_data E rs) ''bodyBase64'' = None"
  by (simp add: response_data_def)

lemma response_body_undecodable:
  "small_body (content_resp rs) \<Longrightarrow> get_text_response E rs = None \<Longrightarrow>
   map_of (response_data E rs) ''body'' = Some JNull
   \<and> map_of (response_data E rs) ''bodyBase64'' = None"
  by (simp add: response_data_def)

lemma response_body_absent:
  "\<not> small_body (content_resp rs) \<Longrightarrow>
   map_of (response_data E rs) ''body'' = None
   \<and> map_of (response_data E rs) ''bodyBase64'' = None"
  by (simp add: response_data_def)

lemma at_path_request:
  "at_path (''request'' # ks) (serialize_flow E flow ph) = at_path ks (JObj (request_data E (request flow)))"
  by (simp add: serialize_flow_def)

lemma at_path_response:
  "response flow = Some rs \<Longrightarrow>
   at_path (''response'' # ks) (serialize_flow E flow ph) = at_path ks (JObj (response_data E rs))"
  by (simp add: serialize_flow_def)

lemma at_path_key: "at_path [k] (JObj d) = map_of d k"
  by (simp split: option.splits)

lemma small_body_iff:
  "small_body (Some bs) \<longleftrightarrow> 0 < length bs \<and> length bs < 1000000"
  by (auto simp: small_body_def)

text \<open>
  C7. In the envelope of a serialised flow, a request or response body of \<open>L\<close> bytes
  with \<open>0 < L < 1000000\<close> is carried as text under \<^verbatim>\<open>body\<close> when the engine decodes
  it. When decoding fails, no text is carried: \<^verbatim>\<open>body\<close> is null, and the request (not
  the response) carries the bytes in hexadecimal under \<^verbatim>\<open>bodyBase64\<close>. A body of
  \<open>1000000\<close> bytes or more is left out, with no \<^verbatim>\<open>body\<close> and no \<^verbatim>\<open>bodyBase64\<close>
  key at all.
\<close>

theorem serialize_flow_bodies:
  fixes bs :: "byte list"
  shows
  "(content (request flow) = Some bs \<and> 0 < length bs \<and> length bs < 1000000 \<longrightarrow>
      (case get_text_request E (request flow) of
         Some t \<Rightarrow>
           at_path [''request'', ''body''] (serialize_flow E flow ph) = Some (JStr t)
           \<and> at_path [''request'', ''bodyBase64''] (serialize_flow E flow ph) = None
       | None \<Rightarrow>
           at_path [''request'', ''body''] (serialize_flow E flow ph) = Some JNull
           \<and> at_path [''request'', ''bodyBase64''] (serialize_flow E flow ph) = Some (JStr (hex bs))))
   \<and> (content (request flow) = Some bs \<and> 1000000 \<le> length bs \<longrightarrow>
         at_path [''request'', ''body''] (serialize_flow E flow ph) = None
         \<and> at_path [''request'', ''bodyBase64''] (serialize_flow E flow ph) = None)
   \<and> (response flow = Some rs \<and> content_resp rs = Some bs \<and> 0 < length bs \<and> length bs < 1000000 \<longrightarrow>
        (case get_text_response E rs of
           Some t \<Rightarrow>
             at_path [''response'', ''body''] (serialize_flow E flow ph) = Some (JStr t)
         | None \<Rightarrow>
             at_path [''response'', ''body''] (serialize_flow E flow ph) = Some JNull)
        \<and> at_path [''response'', ''bodyBase64''] (serialize_flow E flow ph) = None)
   \<and> (response flow = Some rs \<and> content_resp rs = Some bs \<and> 1000000 \<le> length bs \<longrightarrow>
         at_path [''response'', ''body''] (serialize_flow E flow ph) = None
         \<and> at_path [''response'', ''bodyBase64''] (serialize_flow E flow ph) = None)"
proof -
  have a: "content (request flow) = Some bs \<and> 0 < length bs \<and> length bs < 1000000 \<longrightarrow>
      (case get_text_request E (request flow) of
         Some t \<Rightarrow>
           at_path [''request'', ''body''] (serialize_flow E flow ph) = Some (JStr t)
           \<and> at_path [''request'', ''bodyBase64''] (serialize_flow E flow ph) = None
       | None \<Rightarrow>
           at_path [''request'', ''body''] (serialize_flow E flow ph) = Some JNull
           \<and> at_path [''request'', ''bodyBase64''] (serialize_flow E flow ph) = Some (JStr (hex bs)))"
    using request_body_text [of "request flow" E] request_body_undecodable [of "request flow" bs E]
    by (auto simp: at_path_request at_path_key small_body_iff simp del: at_path.simps split: option.splits)
  have b: "content (request flow) = Some bs \<and> 1000000 \<le> length bs \<longrightarrow>
         at_path [''request'', ''body''] (serialize_flow E flow ph) = None
         \<and> at_path [''request'', ''bodyBase64''] (serialize_flow E flow ph) = None"
    using request_body_absent [of "request flow" E]
    by (auto simp: at_path_request at_path_key small_body_iff simp del: at_path.simps)
  have c: "response flow = Some rs \<and> content_resp rs = Some bs \<and> 0 < length bs \<and> length bs < 1000000 \<longrightarrow>
        (case get_text_response E rs of
           Some t \<Rightarrow>
             at_path [''response'', ''body''] (serialize_flow E flow ph) = Some (JStr t)
         | None \<Rightarrow>
             at_path [''response'', ''body''] (serialize_flow E flow ph) = Some JNull)
        \<and> at_path [''response'', ''bodyBase64''] (serialize_flow E flow ph) = None"
    using response_body_text [of rs E] response_body_undecodable [of rs E]
    by (auto simp: at_path_response at_path_key small_body_iff simp del: at_path.simps split: option.splits)
  have d: "response flow = Some rs \<and> content_resp rs = Some bs \<and> 1000000 \<le> length bs \<longrightarrow>
         at_path [''response'', ''body''] (serialize_flow E flow ph) = None
         \<and> at_path [''response'', ''bodyBase64''] (serialize_flow E flow ph) = None"
    using response_body_absent [of rs E]
    by (auto simp: at_path_response at_path_key small_body_iff simp del: at_path.simps)
  from a b c d show ?thesis by blast
qed

theorem serialize_flow_bodies_witness:
  "at_path [''request'', ''body''] (serialize_flow decoding_engine (flow_with_bodies [0x68, 0x69]) ''request'')
     = Some (JStr ''hi'')
   \<and> at_path [''response'', ''body''] (serialize_flow decoding_engine (flow_with_bodies [0x68, 0x69]) ''response'')
     = Some (JStr ''hi'')
   \<and> at_path [''request'', ''body''] (serialize_flow sample_engine (flow_with_bodies [0x68, 0x69]) ''request'')
     = Some JNull
   \<and> at_path [''request'', ''bodyBase64''] (serialize_flow sample_engine (flow_with_bodies [0x68, 0x69]) ''request'')
     = Some (JStr ''6869'')
   \<and> at_path [''response'', ''body''] (serialize_flow sample_engine (flow_with_bodies [0x68, 0x69]) ''response'')
     = Some JNull
   \<and> at_path [''response'', ''bodyBase64''] (serialize_flow sample_engine (flow_with_bodies [0x68, 0x69]) ''response'')
     = None
   \<and> at_path [''request'', ''body'']
        (serialize_flow decoding_engine (flow_with_bodies (replicate 1000000 0)) ''request'') = None
   \<and> at_path [''response'', ''body'']
        (serialize_flow decoding_engine (flow_with_bodies (replicate 1000000 0)) ''response'') = None"
  using
    serialize_flow_bodies [of "flow_with_bodies [0x68, 0x69]" "[0x68, 0x69]" decoding_engine "''request''"
                              "sample_response\<lparr>content_resp := Some [0x68, 0x69]\<rparr>"]
    serialize_flow_bodies [of "flow_with_bodies [0x68, 0x69]" "[0x68, 0x69]" decoding_engine "''response''"
                              "sample_response\<lparr>content_resp := Some [0x68, 0x69]\<rparr>"]
    serialize_flow_bodies [of "flow_with_bodies [0x68, 0x69]" "[0x68, 0x69]" sample_engine "''request''"
                              "sample_response\<lparr>content_resp := Some [0x68, 0x69]\<rparr>"]
    serialize_flow_bodies [of "flow_with_bodies [0x68, 0x69]" "[0x68, 0x69]" sample_engine "''response''"
                              "sample_response\<lparr>content_resp := Some [0x68, 0x69]\<rparr>"]
    serialize_flow_bodies [of "flow_with_bodies (replicate 1000000 0)" "replicate 1000000 0" decoding_engine
                              "''request''" "sample_response\<lparr>content_resp := Some (replicate 1000000 0)\<rparr>"]
    serialize_flow_bodies [of "flow_with_bodies (replicate 1000000 0)" "replicate 1000000 0" decoding_engine
                              "''response''" "sample_response\<lparr>content_resp := Some (replicate 1000000 0)\<rparr>"]
  by (simp add: flow_with_bodies_def decoding_engine_def sample_defs hex_def hex_digit_def
        del: at_path.simps)

subsection \<open>Resuming with modifications\<close>















subsection \<open>Release\<close>









subsection \<open>The request hook, step by step\<close>












subsection \<open>The request hook's policies\<close>




subsection \<open>Registering a held flow\<close>











subsection \<open>A held flow that is blocked\<close>




end
